theory Spec2Isabelle
  imports Complex_Main
begin

section \<open>Python values used by InvoiceGenerator.py\<close>

text \<open>
  A Python \<open>str\<close> is modelled as a \<open>string\<close>, one \<open>char\<close> per code point below 256.
  Python floats (the page coordinates) are modelled as rationals, so arithmetic on
  coordinates is exact in the model.
\<close>

datatype py_exn = IndexError | LibraryError string

text \<open>\<open>str(e)\<close> of an exception, as the f-string of the \<open>except\<close> branch formats it.\<close>

fun exn_str :: "py_exn \<Rightarrow> string" where
  "exn_str IndexError = ''list index out of range''"
| "exn_str (LibraryError msg) = msg"

text \<open>\<open>xs[i]\<close> for an index that comes from \<open>range\<close> (never negative).\<close>

definition py_index :: "'a list \<Rightarrow> nat \<Rightarrow> py_exn + 'a" where
  "py_index xs i = (if i < length xs then Inr (xs ! i) else Inl IndexError)"

text \<open>\<open>s.split('\n')\<close>: one piece per newline plus one; the empty string gives \<open>['']\<close>.\<close>

fun split_nl :: "string \<Rightarrow> string list" where
  "split_nl [] = [[]]"
| "split_nl (c # cs) =
     (if c = CHR 0x0A then [] # split_nl cs
      else (c # hd (split_nl cs)) # tl (split_nl cs))"

text \<open>\<open>'\n'.join(ls)\<close>, used only to state that splitting loses nothing.\<close>

fun join_nl :: "string list \<Rightarrow> string" where
  "join_nl [] = []"
| "join_nl [l] = l"
| "join_nl (l # m # ls) = l @ CHR 0x0A # join_nl (m # ls)"

text \<open>
  \<open>str.isspace\<close> on the code points below 256: tab, line feed, vertical tab, form feed,
  carriage return, the four separators 0x1C..0x1F, space, NEL (0x85) and the no-break
  space (0xA0).
\<close>

definition py_isspace :: "char \<Rightarrow> bool" where
  "py_isspace c = ((of_char c :: nat) \<in> set [9, 10, 11, 12, 13, 28, 29, 30, 31, 32, 133, 160])"

text \<open>\<open>s.strip()\<close>: leading and trailing whitespace removed.\<close>

definition py_strip :: "string \<Rightarrow> string" where
  "py_strip s = rev (dropWhile py_isspace (rev (dropWhile py_isspace s)))"

text \<open>
  \<open>s.upper()\<close>. The model maps the ASCII letters a..z to A..Z and leaves every other
  \<open>char\<close> as it is, which is what Python does on ASCII text.
\<close>

definition upper_char :: "char \<Rightarrow> char" where
  "upper_char c =
     (let n = (of_char c :: nat) in if 97 \<le> n \<and> n \<le> 122 then char_of (n - 32) else c)"

definition py_upper :: "string \<Rightarrow> string" where
  "py_upper s = map upper_char s"

section \<open>The data handed from the form to the renderer\<close>

text \<open>The dict \<open>data\<close> of \<open>generate_invoice_pdf\<close>, one field per key.\<close>

record invoice_data =
  invoice_title :: string
  my_details :: string
  client_details :: string
  deliverables :: string
  inference :: string
  total_amount :: string
  header_font :: string
  body_font :: string

text \<open>
  The widgets of \<open>InvoiceApp\<close> that \<open>on_generate_button_click\<close> reads. A \<open>StringVar\<close> field
  holds what \<open>.get()\<close> returns, a \<open>Text\<close> field what \<open>.get("1.0", tk.END)\<close> returns.
\<close>

record InvoiceApp =
  invoice_title_var :: string
  my_details_text :: string
  client_details_text :: string
  deliverables_text :: string
  inference_text :: string
  total_amount_var :: string
  header_font_var :: string
  body_font_var :: string

section \<open>What is handed to reportlab\<close>

text \<open>The attributes of \<open>styles['Normal']\<close> that the code sets.\<close>

record ParagraphStyle =
  fontName :: string
  fontSize :: rat
  leading :: rat

text \<open>A table cell: a plain string (header row) or \<open>Paragraph(text, style)\<close>.\<close>

datatype cell = Text string | Paragraph string ParagraphStyle

fun cell_text :: "cell \<Rightarrow> string" where
  "cell_text (Text s) = s"
| "cell_text (Paragraph s st) = s"

text \<open>
  One command of the \<open>TableStyle\<close> list: its name, the two cell coordinates and the
  remaining arguments.
\<close>

datatype style_arg = S string | N rat

datatype style_cmd = Cmd string "int \<times> int" "int \<times> int" "style_arg list"

text \<open>\<open>Table(table_data, colWidths=col_widths)\<close> after \<open>setStyle\<close>.\<close>

datatype table = Table "cell list list" "rat list" "style_cmd list"

text \<open>
  The calls made on the canvas, in order. \<open>DrawText x y ls\<close> stands for
  \<open>beginText\<close>, \<open>setTextOrigin(x, y)\<close>, one \<open>textLine\<close> per element of \<open>ls\<close> and
  \<open>drawText\<close>; \<open>DrawOn t x y\<close> for \<open>t.drawOn(c, x, y)\<close>.
\<close>

datatype canvas_op =
    SetFont string rat
  | DrawCentredString rat rat string
  | DrawText rat rat "string list"
  | DrawOn table rat rat

text \<open>
  Everything the run takes from outside the source file:
  the path returned by \<open>filedialog.asksaveasfilename\<close> (empty when the user cancels),
  the predicate \<open>pdfmetrics.hasFont\<close>, the size \<open>Table.wrapOn\<close> measures for a table
  and the available width and height, and the exception, if any, that reportlab raises
  while the canvas for a destination path is built, drawn on and saved. The dialog and
  the message boxes themselves are taken not to fail.
\<close>

record env =
  asksaveasfilename :: string
  hasFont :: "string \<Rightarrow> bool"
  wrapOn :: "table \<Rightarrow> rat \<Rightarrow> rat \<Rightarrow> rat \<times> rat"
  raises :: "string \<Rightarrow> canvas_op list \<Rightarrow> string option"

text \<open>
  What a run does that can be seen from outside, in order: the handler builds the
  record, the save dialog is opened, \<open>c.save()\<close> returns having written the page to a
  path, and a message box is shown.
\<close>

datatype event =
    Snapshot invoice_data
  | AskSaveAs
  | Saved string "canvas_op list"
  | ShowInfo string string
  | ShowError string string

section \<open>Constants of the page\<close>

text \<open>\<open>reportlab.lib.units.inch\<close> and \<open>reportlab.lib.pagesizes.A4\<close> (210 mm by 297 mm), in points.\<close>

definition inch :: rat where
  "inch = 72"

definition width :: rat where
  "width = 210 * (inch / (254 / 100) * (1 / 10))"

definition height :: rat where
  "height = 297 * (inch / (254 / 100) * (1 / 10))"

section \<open>generate_invoice_pdf\<close>

definition available_fonts :: "string list" where
  "available_fonts = [''Helvetica'', ''Times-Roman'', ''Courier'']"

text \<open>The local \<open>header_font\<close> (line 60) and \<open>body_font\<close> (line 61).\<close>

definition resolved_header_font :: "env \<Rightarrow> invoice_data \<Rightarrow> string" where
  "resolved_header_font e d =
     (if header_font d \<in> set available_fonts \<or> hasFont e (header_font d)
      then header_font d else ''Helvetica'')"

definition resolved_body_font :: "env \<Rightarrow> invoice_data \<Rightarrow> string" where
  "resolved_body_font e d =
     (if body_font d \<in> set available_fonts \<or> hasFont e (body_font d)
      then body_font d else ''Times-Roman'')"

text \<open>\<open>p_style\<close> after lines 93 to 96.\<close>

definition p_style :: "string \<Rightarrow> ParagraphStyle" where
  "p_style bf = \<lparr>fontName = bf, fontSize = 10, leading = 12\<rparr>"

text \<open>
  The loop of lines 109 to 113 over the indices of \<open>range(max_len)\<close>: each read of a
  list is guarded by the comparison with its length, and the row is appended.
\<close>

fun rows_loop ::
  "ParagraphStyle \<Rightarrow> string list \<Rightarrow> string list \<Rightarrow> nat list \<Rightarrow> cell list list
   \<Rightarrow> py_exn + cell list list" where
  "rows_loop st dl il [] td = Inr td"
| "rows_loop st dl il (i # rest) td =
     (case (if i < length dl then py_index dl i else Inr '''') of
        Inl e \<Rightarrow> Inl e
      | Inr deliverable \<Rightarrow>
          (case (if i < length il then py_index il i else Inr '''') of
             Inl e \<Rightarrow> Inl e
           | Inr inference_cell \<Rightarrow>
               rows_loop st dl il rest
                 (td @ [[Paragraph deliverable st, Paragraph inference_cell st]])))"

text \<open>
  \<open>table_data\<close> as built by lines 99 to 119 from the two line lists and the total:
  the header row, the loop, then the total row.
\<close>

definition build_table_data ::
  "ParagraphStyle \<Rightarrow> string list \<Rightarrow> string list \<Rightarrow> string \<Rightarrow> py_exn + cell list list" where
  "build_table_data st deliverables_list inference_list total_s =
     (let max_len = max (length deliverables_list) (length inference_list) in
      case rows_loop st deliverables_list inference_list [0..<max_len]
             [[Text ''Deliverables'', Text ''Inference'']] of
        Inl e \<Rightarrow> Inl e
      | Inr td \<Rightarrow>
          Inr (td @ [[Paragraph ''<b>TOTAL PAYABLE:</b>'' st,
                      Paragraph (''<b>'' @ total_s @ ''</b>'') st]]))"

text \<open>\<open>table_data\<close> of a run: the two fields are split at newlines first (lines 102, 103).\<close>

definition table_data :: "env \<Rightarrow> invoice_data \<Rightarrow> py_exn + cell list list" where
  "table_data e d =
     build_table_data (p_style (resolved_body_font e d))
       (split_nl (deliverables d)) (split_nl (inference d)) (total_amount d)"

text \<open>\<open>col_widths\<close> (line 123) and the \<open>TableStyle\<close> list (lines 127 to 144).\<close>

definition col_widths :: "rat list" where
  "col_widths = [(width - 2 * inch) / 2, (width - 2 * inch) / 2]"

definition table_style :: "string \<Rightarrow> string \<Rightarrow> style_cmd list" where
  "table_style hf bf =
     [Cmd ''BACKGROUND'' (0, 0) (-1, 0) [S ''#EEEEEE''],
      Cmd ''TEXTCOLOR'' (0, 0) (-1, 0) [S ''#000000''],
      Cmd ''ALIGN'' (0, 0) (-1, -1) [S ''LEFT''],
      Cmd ''FONTNAME'' (0, 0) (-1, 0) [S (hf @ ''-Bold'')],
      Cmd ''FONTSIZE'' (0, 0) (-1, 0) [N 10],
      Cmd ''BOTTOMPADDING'' (0, 0) (-1, 0) [N 12],
      Cmd ''BACKGROUND'' (0, -1) (-1, -1) [S ''#DDDDDD''],
      Cmd ''TEXTCOLOR'' (0, -1) (-1, -1) [S ''#000000''],
      Cmd ''FONTNAME'' (0, -1) (-1, -1) [S (bf @ ''-Bold'')],
      Cmd ''FONTSIZE'' (0, -1) (-1, -1) [N 10],
      Cmd ''GRID'' (0, 0) (-1, -1) [N 1, S ''#CCCCCC''],
      Cmd ''VALIGN'' (0, 0) (-1, -1) [S ''TOP''],
      Cmd ''LEFTPADDING'' (0, 0) (-1, -1) [N 5],
      Cmd ''RIGHTPADDING'' (0, 0) (-1, -1) [N 5],
      Cmd ''TOPPADDING'' (0, 0) (-1, -1) [N 5],
      Cmd ''BOTTOMPADDING'' (0, 0) (-1, -1) [N 5]]"

text \<open>The styled table of lines 124 to 146 for a given \<open>table_data\<close>.\<close>

definition the_table :: "env \<Rightarrow> invoice_data \<Rightarrow> cell list list \<Rightarrow> table" where
  "the_table e d td =
     Table td col_widths (table_style (resolved_header_font e d) (resolved_body_font e d))"

text \<open>\<open>table_height\<close>, the second component of what \<open>wrapOn\<close> returns (line 150).\<close>

definition table_height :: "env \<Rightarrow> invoice_data \<Rightarrow> cell list list \<Rightarrow> rat" where
  "table_height e d td = snd (wrapOn e (the_table e d td) (width - 2 * inch) height)"

text \<open>
  The calls on the canvas between its creation and \<open>c.save()\<close> (lines 67 to 152),
  for a given \<open>table_data\<close>.
\<close>

definition page_ops :: "env \<Rightarrow> invoice_data \<Rightarrow> cell list list \<Rightarrow> canvas_op list" where
  "page_ops e d td =
     [SetFont (resolved_header_font e d @ ''-Bold'') 36,
      DrawCentredString (width / 2) (height - 70) (py_upper (invoice_title d)),
      SetFont (resolved_body_font e d) 10,
      DrawText inch (height - 150) (split_nl (my_details d)),
      SetFont (resolved_body_font e d) 10,
      DrawText (width - (35 / 10) * inch) (height - 150) (split_nl (client_details d)),
      DrawOn (the_table e d td) inch (height - 300 - table_height e d td)]"

text \<open>
  The body of the \<open>try\<close> (lines 34 to 154) up to and including \<open>c.save()\<close>: it ends
  with the page written, or with the exception that left it. An exception is either
  the \<open>IndexError\<close> of a list read in the loop or one raised inside reportlab. Nothing
  is written before \<open>c.save()\<close>, so the place where reportlab raises does not show in
  the outcome, and the list reads of the loop are looked at first.
\<close>

definition try_block :: "env \<Rightarrow> string \<Rightarrow> invoice_data \<Rightarrow> py_exn + canvas_op list" where
  "try_block e file_path d =
     (case table_data e d of
        Inl ex \<Rightarrow> Inl ex
      | Inr td \<Rightarrow>
          (case raises e file_path (page_ops e d td) of
             Some msg \<Rightarrow> Inl (LibraryError msg)
           | None \<Rightarrow> Inr (page_ops e d td)))"

text \<open>
  \<open>generate_invoice_pdf(data)\<close>: the events of one call. The dialog comes first; an
  empty path returns at once (line 31); otherwise the \<open>try\<close> runs and ends in
  \<open>showinfo\<close> (line 155) or, from the \<open>except\<close> branch, in \<open>showerror\<close> (line 158).
\<close>

definition generate_invoice_pdf :: "env \<Rightarrow> invoice_data \<Rightarrow> event list" where
  "generate_invoice_pdf e d =
     AskSaveAs #
     (let file_path = asksaveasfilename e in
      if file_path = [] then []
      else (case try_block e file_path d of
              Inr ops \<Rightarrow>
                [Saved file_path ops,
                 ShowInfo ''Success'' ''Invoice PDF generated successfully!'']
            | Inl ex \<Rightarrow>
                [ShowError ''Error''
                   (''An error occurred during PDF generation: '' @ exn_str ex)]))"

section \<open>InvoiceApp.on_generate_button_click\<close>

text \<open>Lines 286 to 296: the dict is built from the widgets, then the renderer is called.\<close>

definition on_generate_button_click :: "env \<Rightarrow> InvoiceApp \<Rightarrow> event list" where
  "on_generate_button_click e self =
     (let data = \<lparr>invoice_title = invoice_title_var self,
                  my_details = py_strip (my_details_text self),
                  client_details = py_strip (client_details_text self),
                  deliverables = py_strip (deliverables_text self),
                  inference = py_strip (inference_text self),
                  total_amount = total_amount_var self,
                  header_font = header_font_var self,
                  body_font = body_font_var self\<rparr>
      in Snapshot data # generate_invoice_pdf e data)"

section \<open>Reading a run\<close>

text \<open>The records built, the files written and the message boxes shown in a run.\<close>

fun records_built :: "event list \<Rightarrow> invoice_data list" where
  "records_built [] = []"
| "records_built (Snapshot d # evs) = d # records_built evs"
| "records_built (ev # evs) = records_built evs"

fun files_written :: "event list \<Rightarrow> (string \<times> canvas_op list) list" where
  "files_written [] = []"
| "files_written (Saved p ops # evs) = (p, ops) # files_written evs"
| "files_written (ev # evs) = files_written evs"

fun notifications :: "event list \<Rightarrow> event list" where
  "notifications [] = []"
| "notifications (ShowInfo t m # evs) = ShowInfo t m # notifications evs"
| "notifications (ShowError t m # evs) = ShowError t m # notifications evs"
| "notifications (ev # evs) = notifications evs"

text \<open>The arguments of the \<open>drawOn\<close> calls among the calls on a canvas.\<close>

fun drawOn_calls :: "canvas_op list \<Rightarrow> (table \<times> rat \<times> rat) list" where
  "drawOn_calls [] = []"
| "drawOn_calls (DrawOn t x y # ops) = (t, x, y) # drawOn_calls ops"
| "drawOn_calls (opn # ops) = drawOn_calls ops"

text \<open>
  The top edge of a table drawn by \<open>t.drawOn(c, x, y)\<close>: \<open>y\<close> is its lower edge, so the
  top edge is \<open>y\<close> plus the height that \<open>wrapOn\<close> measured for \<open>t\<close>.
\<close>

fun table_top :: "env \<Rightarrow> table \<times> rat \<times> rat \<Rightarrow> rat" where
  "table_top e (t, x, y) = y + snd (wrapOn e t (width - 2 * inch) height)"

section \<open>Concrete inputs\<close>

text \<open>
  Environments in which the user picks a path and nothing fails, picks another path,
  picks a path and reportlab raises, or cancels the dialog; a record with two font
  names that are neither standard nor registered; and a form whose multi-line fields
  hold leading blanks, a leading empty line and the final newline of a \<open>Text\<close> widget.
\<close>

definition env_ok :: env where
  "env_ok = \<lparr>asksaveasfilename = ''invoice.pdf'', hasFont = (\<lambda>f. False),
             wrapOn = (\<lambda>t w h. (w, 90)), raises = (\<lambda>p ops. None)\<rparr>"

definition env_other :: env where
  "env_other = \<lparr>asksaveasfilename = ''copy.pdf'', hasFont = (\<lambda>f. False),
             wrapOn = (\<lambda>t w h. (w, 90)), raises = (\<lambda>p ops. None)\<rparr>"

definition env_fail :: env where
  "env_fail = \<lparr>asksaveasfilename = ''invoice.pdf'', hasFont = (\<lambda>f. False),
             wrapOn = (\<lambda>t w h. (w, 90)), raises = (\<lambda>p ops. Some ''Permission denied'')\<rparr>"

definition env_cancel :: env where
  "env_cancel = \<lparr>asksaveasfilename = '''', hasFont = (\<lambda>f. False),
             wrapOn = (\<lambda>t w h. (w, 90)), raises = (\<lambda>p ops. None)\<rparr>"

definition data_example :: invoice_data where
  "data_example = \<lparr>invoice_title = ''Sales Invoice'', my_details = ''Me'',
      client_details = ''You'', deliverables = ''A'' @ [CHR 0x0A] @ ''B'', inference = ''X'',
      total_amount = ''100'', header_font = ''Arial'', body_font = ''Comic Sans''\<rparr>"

definition app_example :: InvoiceApp where
  "app_example = \<lparr>invoice_title_var = ''Sales Invoice'',
      my_details_text = ''  Acme Ltd'' @ [CHR 0x0A],
      client_details_text = ''Client'' @ [CHR 0x0A],
      deliverables_text = [CHR 0x0A] @ ''B'' @ [CHR 0x0A],
      inference_text = ''X'' @ [CHR 0x0A] @ ''Y'' @ [CHR 0x0A],
      total_amount_var = ''100'', header_font_var = ''Helvetica'',
      body_font_var = ''Times-Roman''\<rparr>"

section \<open>Facts about the row loop\<close>

text \<open>The item row the loop appends for index \<open>i\<close>.\<close>

definition item_row :: "ParagraphStyle \<Rightarrow> string list \<Rightarrow> string list \<Rightarrow> nat \<Rightarrow> cell list" where
  "item_row st dl il i =
     [Paragraph (if i < length dl then dl ! i else '''') st,
      Paragraph (if i < length il then il ! i else '''') st]"

lemma rows_loop_eq:
  "rows_loop st dl il idxs td = Inr (td @ map (item_row st dl il) idxs)"
  by (induction idxs arbitrary: td) (simp_all add: py_index_def item_row_def)

lemma build_table_data_eq:
  "build_table_data st dl il total_s =
     Inr ([Text ''Deliverables'', Text ''Inference'']
          # map (item_row st dl il) [0..<max (length dl) (length il)]
          @ [[Paragraph ''<b>TOTAL PAYABLE:</b>'' st, Paragraph (''<b>'' @ total_s @ ''</b>'') st]])"
  by (simp add: build_table_data_def rows_loop_eq)


lemma split_nl_nonempty: "split_nl s \<noteq> []"
  by (induction s) simp_all

lemma length_split_nl_pos: "1 \<le> length (split_nl s)"
  using split_nl_nonempty [of s] by (cases "split_nl s") simp_all

lemma table_data_eq:
  "table_data e d =
     Inr ([Text ''Deliverables'', Text ''Inference'']
          # map (item_row (p_style (resolved_body_font e d))
                   (split_nl (deliverables d)) (split_nl (inference d)))
              [0..<max (length (split_nl (deliverables d))) (length (split_nl (inference d)))]
          @ [[Paragraph ''<b>TOTAL PAYABLE:</b>'' (p_style (resolved_body_font e d)),
              Paragraph (''<b>'' @ total_amount d @ ''</b>'') (p_style (resolved_body_font e d))]])"
  by (simp add: table_data_def build_table_data_eq)

section \<open>The line-item table\<close>

text \<open>
  C1. For line lists of different lengths \<open>m\<close> and \<open>n\<close>, building the table ends
  normally, so no \<open>IndexError\<close> leaves the loop; the table has the header row, then
  \<open>max m n\<close> item rows, then the total row; and in item row \<open>i\<close> a cell whose list has
  no element \<open>i\<close> holds the empty string.
\<close>

theorem unequal_lists_padded:
  assumes "length dl \<noteq> length il"
  shows "\<exists>td. build_table_data st dl il total_s = Inr td
           \<and> build_table_data st dl il total_s \<noteq> Inl IndexError
           \<and> length td = max (length dl) (length il) + 2
           \<and> hd td = [Text ''Deliverables'', Text ''Inference'']
           \<and> last td = [Paragraph ''<b>TOTAL PAYABLE:</b>'' st,
                         Paragraph (''<b>'' @ total_s @ ''</b>'') st]
           \<and> (\<forall>i < max (length dl) (length il).
                 td ! Suc i = [Paragraph (if i < length dl then dl ! i else '''') st,
                               Paragraph (if i < length il then il ! i else '''') st])"
proof -
  let ?n = "max (length dl) (length il)"
  let ?rows = "map (item_row st dl il) [0..<?n]"
  let ?tot = "[Paragraph ''<b>TOTAL PAYABLE:</b>'' st, Paragraph (''<b>'' @ total_s @ ''</b>'') st]"
  let ?td = "[Text ''Deliverables'', Text ''Inference''] # ?rows @ [?tot]"
  have eq: "build_table_data st dl il total_s = Inr ?td"
    by (rule build_table_data_eq)
  have len: "length ?td = ?n + 2" by simp
  have rows: "\<forall>i < ?n. ?td ! Suc i = [Paragraph (if i < length dl then dl ! i else '''') st,
                               Paragraph (if i < length il then il ! i else '''') st]"
    by (simp add: nth_append item_row_def)
  show ?thesis
    unfolding eq using len rows by (intro exI [of _ ?td]) simp
qed

theorem unequal_lists_padded_witness:
  "length [''A'', ''B''] \<noteq> length [''X'']
   \<and> build_table_data (p_style ''Times-Roman'') [''A'', ''B''] [''X''] ''100'' \<noteq> Inl IndexError
   \<and> (\<exists>td. build_table_data (p_style ''Times-Roman'') [''A'', ''B''] [''X''] ''100'' = Inr td
          \<and> length td = 4 \<and> td ! 2 = [Paragraph ''B'' (p_style ''Times-Roman''), Paragraph '''' (p_style ''Times-Roman'')])"
proof -
  have h: "length [''A'', ''B''] \<noteq> length [''X'']" by simp
  from unequal_lists_padded [OF h, of "p_style ''Times-Roman''" "''100''"]
  obtain td where td: "build_table_data (p_style ''Times-Roman'') [''A'', ''B''] [''X''] ''100'' = Inr td"
    and ne: "build_table_data (p_style ''Times-Roman'') [''A'', ''B''] [''X''] ''100'' \<noteq> Inl IndexError"
    and len: "length td = max (length [''A'', ''B'']) (length [''X'']) + 2"
    and rows: "\<forall>i < max (length [''A'', ''B'']) (length [''X'']).
                 td ! Suc i = [Paragraph (if i < length [''A'', ''B''] then [''A'', ''B''] ! i else '''') (p_style ''Times-Roman''),
                               Paragraph (if i < length [''X''] then [''X''] ! i else '''') (p_style ''Times-Roman'')]"
    by blast
  from rows have "td ! Suc 1 = [Paragraph ''B'' (p_style ''Times-Roman''), Paragraph '''' (p_style ''Times-Roman'')]"
    by simp
  then have r2: "td ! 2 = [Paragraph ''B'' (p_style ''Times-Roman''), Paragraph '''' (p_style ''Times-Roman'')]"
    by (simp add: numeral_2_eq_2)
  from len have l4: "length td = 4" by simp
  show ?thesis using h td ne l4 r2 by blast
qed

text \<open>
  C9. Splitting at newlines always gives at least one piece, the empty string gives
  the single piece \<open>''\<close>, so the table of every record has at least one item row and
  \<open>max m n + 2\<close>, at least three, rows in all; with both fields empty it is the header
  row, one row of two empty cells and the total row.
\<close>

theorem at_least_one_item_row:
  "1 \<le> length (split_nl s)
   \<and> split_nl '''' = ['''']
   \<and> (\<exists>td. table_data e d = Inr td
          \<and> length td = max (length (split_nl (deliverables d)))
                             (length (split_nl (inference d))) + 2
          \<and> 3 \<le> length td
          \<and> 1 \<le> length td - 2)
   \<and> table_data e (d\<lparr>deliverables := '''', inference := ''''\<rparr>) =
       Inr [[Text ''Deliverables'', Text ''Inference''],
            [Paragraph '''' (p_style (resolved_body_font e d)),
             Paragraph '''' (p_style (resolved_body_font e d))],
            [Paragraph ''<b>TOTAL PAYABLE:</b>'' (p_style (resolved_body_font e d)),
             Paragraph (''<b>'' @ total_amount d @ ''</b>'') (p_style (resolved_body_font e d))]]"
proof -
  have a: "1 \<le> length (split_nl s)" by (rule length_split_nl_pos)
  have b: "split_nl '''' = ['''']" by simp
  have m: "1 \<le> max (length (split_nl (deliverables d))) (length (split_nl (inference d)))"
    using length_split_nl_pos [of "deliverables d"] by simp
  have c: "\<exists>td. table_data e d = Inr td
          \<and> length td = max (length (split_nl (deliverables d)))
                             (length (split_nl (inference d))) + 2
          \<and> 3 \<le> length td
          \<and> 1 \<le> length td - 2"
    unfolding table_data_eq using m by simp
  have f: "resolved_body_font e (d\<lparr>deliverables := '''', inference := ''''\<rparr>) = resolved_body_font e d"
    by (simp add: resolved_body_font_def)
  have dd: "table_data e (d\<lparr>deliverables := '''', inference := ''''\<rparr>) =
       Inr [[Text ''Deliverables'', Text ''Inference''],
            [Paragraph '''' (p_style (resolved_body_font e d)),
             Paragraph '''' (p_style (resolved_body_font e d))],
            [Paragraph ''<b>TOTAL PAYABLE:</b>'' (p_style (resolved_body_font e d)),
             Paragraph (''<b>'' @ total_amount d @ ''</b>'') (p_style (resolved_body_font e d))]]"
    unfolding table_data_eq f by (simp add: item_row_def)
  show ?thesis using a b c dd by blast
qed

text \<open>
  C6. For the line lists \<open>["A", "B"]\<close> and \<open>["X"]\<close> and the total \<open>"100"\<close> the table
  is, in order, the header row, the item rows \<open>A, X\<close> and \<open>B, ''\<close>, and the total row
  whose value cell is \<open>100\<close> between bold tags; the same holds for a record whose
  fields are \<open>"A\nB"\<close>, \<open>"X"\<close> and \<open>"100"\<close>.
\<close>

theorem example_table_rows:
  "build_table_data st [''A'', ''B''] [''X''] ''100'' =
     Inr [[Text ''Deliverables'', Text ''Inference''],
          [Paragraph ''A'' st, Paragraph ''X'' st],
          [Paragraph ''B'' st, Paragraph '''' st],
          [Paragraph ''<b>TOTAL PAYABLE:</b>'' st, Paragraph ''<b>100</b>'' st]]
   \<and> split_nl (''A'' @ [CHR 0x0A] @ ''B'') = [''A'', ''B'']
   \<and> split_nl ''X'' = [''X'']
   \<and> table_data e (d\<lparr>deliverables := ''A'' @ [CHR 0x0A] @ ''B'', inference := ''X'',
                        total_amount := ''100''\<rparr>) =
       Inr [[Text ''Deliverables'', Text ''Inference''],
            [Paragraph ''A'' (p_style (resolved_body_font e d)),
             Paragraph ''X'' (p_style (resolved_body_font e d))],
            [Paragraph ''B'' (p_style (resolved_body_font e d)),
             Paragraph '''' (p_style (resolved_body_font e d))],
            [Paragraph ''<b>TOTAL PAYABLE:</b>'' (p_style (resolved_body_font e d)),
             Paragraph ''<b>100</b>'' (p_style (resolved_body_font e d))]]"
proof -
  have up: "[0..<2] = [0, 1]" by (simp add: upt_rec)
  have a: "build_table_data s [''A'', ''B''] [''X''] ''100'' =
     Inr [[Text ''Deliverables'', Text ''Inference''],
          [Paragraph ''A'' s, Paragraph ''X'' s],
          [Paragraph ''B'' s, Paragraph '''' s],
          [Paragraph ''<b>TOTAL PAYABLE:</b>'' s, Paragraph ''<b>100</b>'' s]]" for s
    by (simp add: build_table_data_eq up item_row_def)
  have b: "split_nl (''A'' @ [CHR 0x0A] @ ''B'') = [''A'', ''B'']" by simp
  have c: "split_nl ''X'' = [''X'']" by simp
  have f: "resolved_body_font e (d\<lparr>deliverables := ''A'' @ [CHR 0x0A] @ ''B'', inference := ''X'',
                        total_amount := ''100''\<rparr>) = resolved_body_font e d"
    by (simp add: resolved_body_font_def)
  have dd: "table_data e (d\<lparr>deliverables := ''A'' @ [CHR 0x0A] @ ''B'', inference := ''X'',
                        total_amount := ''100''\<rparr>) =
       build_table_data (p_style (resolved_body_font e d)) [''A'', ''B''] [''X''] ''100''"
    unfolding table_data_def f using b c by simp
  show ?thesis using a [of "p_style (resolved_body_font e d)"] a [of st] b c dd by simp
qed

text \<open>
  C10. In the table of every record the last row is the total row: the text of its
  label cell is the literal \<open><b>TOTAL PAYABLE:</b>\<close>, whatever the record holds, and the
  text of its value cell is \<open>total_amount\<close> between bold tags. Both cells carry the
  paragraph style with the resolved body font.
\<close>

theorem total_label_fixed:
  "\<exists>td. table_data e d = Inr td
      \<and> last td = [Paragraph ''<b>TOTAL PAYABLE:</b>'' (p_style (resolved_body_font e d)),
                    Paragraph (''<b>'' @ total_amount d @ ''</b>'') (p_style (resolved_body_font e d))]
      \<and> cell_text (last td ! 0) = ''<b>TOTAL PAYABLE:</b>''
      \<and> cell_text (last td ! 1) = ''<b>'' @ total_amount d @ ''</b>''"
  unfolding table_data_eq by simp

section \<open>Facts about splitting and about a run\<close>

lemma join_split_nl: "join_nl (split_nl s) = s"
proof (induction s)
  case Nil
  show ?case by simp
next
  case (Cons c cs)
  obtain l ls where sp: "split_nl cs = l # ls"
    using split_nl_nonempty [of cs] by (cases "split_nl cs") auto
  with Cons show ?case by (cases ls) auto
qed

lemma try_block_Inr:
  "table_data e d = Inr td \<Longrightarrow>
   try_block e p d =
     (case raises e p (page_ops e d td) of
        Some msg \<Rightarrow> Inl (LibraryError msg)
      | None \<Rightarrow> Inr (page_ops e d td))"
  by (simp add: try_block_def)

lemma table_data_total: "\<exists>td. table_data e d = Inr td"
  by (simp add: table_data_eq)

lemma generate_cancel:
  "asksaveasfilename e = [] \<Longrightarrow> generate_invoice_pdf e d = [AskSaveAs]"
  by (simp add: generate_invoice_pdf_def)

lemma generate_run:
  "asksaveasfilename e \<noteq> [] \<Longrightarrow> table_data e d = Inr td \<Longrightarrow>
   generate_invoice_pdf e d =
     AskSaveAs #
     (case raises e (asksaveasfilename e) (page_ops e d td) of
        None \<Rightarrow>
          [Saved (asksaveasfilename e) (page_ops e d td),
           ShowInfo ''Success'' ''Invoice PDF generated successfully!'']
      | Some msg \<Rightarrow>
          [ShowError ''Error'' (''An error occurred during PDF generation: '' @ msg)])"
  by (simp add: generate_invoice_pdf_def try_block_Inr split: option.split)

lemma page_ops_cong:
  "hasFont e1 = hasFont e2 \<Longrightarrow> wrapOn e1 = wrapOn e2 \<Longrightarrow> page_ops e1 d td = page_ops e2 d td"
  by (simp add: page_ops_def the_table_def table_height_def
        resolved_header_font_def resolved_body_font_def)

lemma table_data_cong:
  "hasFont e1 = hasFont e2 \<Longrightarrow> table_data e1 d = table_data e2 d"
  by (simp add: table_data_def resolved_body_font_def)

lemma success_no_raise:
  assumes p: "asksaveasfilename e \<noteq> []" and td: "table_data e d = Inr td"
    and ok: "notifications (generate_invoice_pdf e d) =
               [ShowInfo ''Success'' ''Invoice PDF generated successfully!'']"
  shows "generate_invoice_pdf e d =
           [AskSaveAs, Saved (asksaveasfilename e) (page_ops e d td),
            ShowInfo ''Success'' ''Invoice PDF generated successfully!'']"
proof (cases "raises e (asksaveasfilename e) (page_ops e d td)")
  case None
  with generate_run [OF p td] show ?thesis by simp
next
  case (Some msg)
  with generate_run [OF p td] ok show ?thesis by simp
qed

lemma records_built_generate: "records_built (generate_invoice_pdf e d) = []"
  by (simp add: generate_invoice_pdf_def Let_def split: sum.split)

section \<open>Fonts\<close>



section \<open>Position of the table\<close>

text \<open>
  C7. For every record, every environment and every table content there is exactly one
  \<open>drawOn\<close> call; it draws the table at \<open>x = inch = 72\<close> and
  \<open>y = height - 300 - table_height\<close>, so the top edge of the table lies at
  \<open>height - 300 = 68820 / 127\<close> points, whatever height was measured and whatever the
  sender and client blocks hold.
\<close>

theorem table_top_fixed:
  "drawOn_calls (page_ops e d td) = [(the_table e d td, inch, height - 300 - table_height e d td)]
   \<and> map (table_top e) (drawOn_calls (page_ops e d td)) = [height - 300]
   \<and> height - 300 = 68820 / 127
   \<and> inch = 72"
  by (simp add: page_ops_def table_height_def height_def inch_def)


section \<open>Cancelling the save dialog\<close>

text \<open>
  C3, as the code has it. When the dialog returns the empty path,
  \<open>generate_invoice_pdf\<close> does nothing after opening the dialog: no file is written and
  no message box is shown, neither by the renderer nor by the whole click handler. The
  record has been built by the handler before the dialog opened.
\<close>

theorem cancel_drops_request:
  assumes "asksaveasfilename e = []"
  shows "generate_invoice_pdf e d = [AskSaveAs]
     \<and> files_written (generate_invoice_pdf e d) = []
     \<and> notifications (generate_invoice_pdf e d) = []
     \<and> files_written (on_generate_button_click e self) = []
     \<and> notifications (on_generate_button_click e self) = []
     \<and> records_built (on_generate_button_click e self) =
         [\<lparr>invoice_title = invoice_title_var self,
           my_details = py_strip (my_details_text self),
           client_details = py_strip (client_details_text self),
           deliverables = py_strip (deliverables_text self),
           inference = py_strip (inference_text self),
           total_amount = total_amount_var self,
           header_font = header_font_var self,
           body_font = body_font_var self\<rparr>]"
  using assms by (simp add: on_generate_button_click_def generate_cancel)

theorem cancel_drops_request_witness:
  "asksaveasfilename env_cancel = []
   \<and> generate_invoice_pdf env_cancel data_example = [AskSaveAs]
   \<and> files_written (on_generate_button_click env_cancel app_example) = []
   \<and> notifications (on_generate_button_click env_cancel app_example) = []"
proof -
  have h: "asksaveasfilename env_cancel = []" by (simp add: env_cancel_def)
  show ?thesis
    using h cancel_drops_request [OF h, of data_example app_example] by simp
qed

text \<open>
  C3, as stated, fails: with the dialog cancelled, no file and no message box, but the
  handler has built one record.
\<close>

theorem cancel_record_counterexample:
  "\<not> (asksaveasfilename env_cancel = [] \<longrightarrow>
        files_written (on_generate_button_click env_cancel app_example) = []
        \<and> notifications (on_generate_button_click env_cancel app_example) = []
        \<and> records_built (on_generate_button_click env_cancel app_example) = [])"
  by (simp add: env_cancel_def on_generate_button_click_def generate_invoice_pdf_def)

section \<open>Outcomes of a run\<close>

text \<open>
  C4. When the dialog returns a path, the run ends in exactly one of two ways. Either
  reportlab raises nothing: the page is saved to the path and one message box
  \<open>Success\<close> is shown. Or reportlab raises with some message: nothing is reported as
  saved, and one message box \<open>Error\<close> is shown whose text is the fixed prefix followed
  by that message. In both cases exactly one message box is shown, and the error box
  has the same form for every exception.
\<close>

theorem two_outcomes:
  assumes "asksaveasfilename e \<noteq> []"
  shows "\<exists>td. table_data e d = Inr td
     \<and> ((raises e (asksaveasfilename e) (page_ops e d td) = None
          \<and> generate_invoice_pdf e d =
              [AskSaveAs, Saved (asksaveasfilename e) (page_ops e d td),
               ShowInfo ''Success'' ''Invoice PDF generated successfully!''])
        \<or> (\<exists>msg. raises e (asksaveasfilename e) (page_ops e d td) = Some msg
              \<and> generate_invoice_pdf e d =
                  [AskSaveAs,
                   ShowError ''Error''
                     (''An error occurred during PDF generation: '' @ msg)]))
     \<and> length (notifications (generate_invoice_pdf e d)) = 1"
proof -
  obtain td where td: "table_data e d = Inr td"
    using table_data_total by blast
  note run = generate_run [OF assms td]
  show ?thesis
  proof (cases "raises e (asksaveasfilename e) (page_ops e d td)")
    case None
    with run td show ?thesis by (intro exI [of _ td]) simp
  next
    case (Some msg)
    with run td show ?thesis by (intro exI [of _ td]) simp
  qed
qed

theorem two_outcomes_witness:
  "asksaveasfilename env_ok \<noteq> []
   \<and> asksaveasfilename env_fail \<noteq> []
   \<and> notifications (generate_invoice_pdf env_ok data_example) =
       [ShowInfo ''Success'' ''Invoice PDF generated successfully!'']
   \<and> map fst (files_written (generate_invoice_pdf env_ok data_example)) = [''invoice.pdf'']
   \<and> generate_invoice_pdf env_fail data_example =
       [AskSaveAs,
        ShowError ''Error'' ''An error occurred during PDF generation: Permission denied'']"
proof -
  have ok: "asksaveasfilename env_ok \<noteq> []" by (simp add: env_ok_def)
  have fl: "asksaveasfilename env_fail \<noteq> []" by (simp add: env_fail_def)
  have r_ok: "raises env_ok p ops = None" for p ops by (simp add: env_ok_def)
  have r_fl: "raises env_fail p ops = Some ''Permission denied''" for p ops
    by (simp add: env_fail_def)
  have p_ok: "asksaveasfilename env_ok = ''invoice.pdf''" by (simp add: env_ok_def)
  from two_outcomes [OF ok, of data_example]
  have a: "notifications (generate_invoice_pdf env_ok data_example) =
       [ShowInfo ''Success'' ''Invoice PDF generated successfully!'']
     \<and> map fst (files_written (generate_invoice_pdf env_ok data_example)) = [''invoice.pdf'']"
    unfolding r_ok p_ok by auto
  from two_outcomes [OF fl, of data_example]
  have b: "generate_invoice_pdf env_fail data_example =
       [AskSaveAs,
        ShowError ''Error'' ''An error occurred during PDF generation: Permission denied'']"
    unfolding r_fl by auto
  show ?thesis using ok fl a b by blast
qed

section \<open>The page does not depend on the path\<close>

text \<open>
  C8. Two runs on the same record, with the same font registry and the same
  measurements, with two different non-empty paths, both ending in the message box
  \<open>Success\<close>, each write one file, to their own path, and the two files hold the same
  page.
\<close>

theorem same_page_any_path:
  assumes "hasFont e1 = hasFont e2" and "wrapOn e1 = wrapOn e2"
    and "asksaveasfilename e1 \<noteq> []" and "asksaveasfilename e2 \<noteq> []"
    and "asksaveasfilename e1 \<noteq> asksaveasfilename e2"
    and "notifications (generate_invoice_pdf e1 d) =
           [ShowInfo ''Success'' ''Invoice PDF generated successfully!'']"
    and "notifications (generate_invoice_pdf e2 d) =
           [ShowInfo ''Success'' ''Invoice PDF generated successfully!'']"
  shows "\<exists>ops. files_written (generate_invoice_pdf e1 d) = [(asksaveasfilename e1, ops)]
             \<and> files_written (generate_invoice_pdf e2 d) = [(asksaveasfilename e2, ops)]"
proof -
  obtain td where td1: "table_data e1 d = Inr td"
    using table_data_total by blast
  then have td2: "table_data e2 d = Inr td"
    using table_data_cong [OF assms(1), of d] by simp
  have g1: "generate_invoice_pdf e1 d =
           [AskSaveAs, Saved (asksaveasfilename e1) (page_ops e1 d td),
            ShowInfo ''Success'' ''Invoice PDF generated successfully!'']"
    by (rule success_no_raise [OF assms(3) td1 assms(6)])
  have g2: "generate_invoice_pdf e2 d =
           [AskSaveAs, Saved (asksaveasfilename e2) (page_ops e2 d td),
            ShowInfo ''Success'' ''Invoice PDF generated successfully!'']"
    by (rule success_no_raise [OF assms(4) td2 assms(7)])
  have eq: "page_ops e1 d td = page_ops e2 d td"
    by (rule page_ops_cong [OF assms(1) assms(2)])
  show ?thesis unfolding g1 g2 eq by simp
qed

theorem same_page_any_path_witness:
  "asksaveasfilename env_ok \<noteq> asksaveasfilename env_other
   \<and> notifications (generate_invoice_pdf env_ok data_example) =
       [ShowInfo ''Success'' ''Invoice PDF generated successfully!'']
   \<and> notifications (generate_invoice_pdf env_other data_example) =
       [ShowInfo ''Success'' ''Invoice PDF generated successfully!'']
   \<and> map fst (files_written (generate_invoice_pdf env_ok data_example)) = [''invoice.pdf'']
   \<and> map fst (files_written (generate_invoice_pdf env_other data_example)) = [''copy.pdf'']
   \<and> map snd (files_written (generate_invoice_pdf env_ok data_example)) =
       map snd (files_written (generate_invoice_pdf env_other data_example))"
proof -
  have hf: "hasFont env_ok = hasFont env_other" by (simp add: env_ok_def env_other_def)
  have wr: "wrapOn env_ok = wrapOn env_other" by (simp add: env_ok_def env_other_def)
  have p1: "asksaveasfilename env_ok \<noteq> []" by (simp add: env_ok_def)
  have p2: "asksaveasfilename env_other \<noteq> []" by (simp add: env_other_def)
  have ne: "asksaveasfilename env_ok \<noteq> asksaveasfilename env_other"
    by (simp add: env_ok_def env_other_def)
  obtain td where td1: "table_data env_ok data_example = Inr td"
    using table_data_total by blast
  obtain td' where td2: "table_data env_other data_example = Inr td'"
    using table_data_total by blast
  have r1: "raises env_ok p ops = None" for p ops by (simp add: env_ok_def)
  have r2: "raises env_other p ops = None" for p ops by (simp add: env_other_def)
  have n1: "notifications (generate_invoice_pdf env_ok data_example) =
       [ShowInfo ''Success'' ''Invoice PDF generated successfully!'']"
    using generate_run [OF p1 td1] by (simp add: r1)
  have n2: "notifications (generate_invoice_pdf env_other data_example) =
       [ShowInfo ''Success'' ''Invoice PDF generated successfully!'']"
    using generate_run [OF p2 td2] by (simp add: r2)
  have q1: "asksaveasfilename env_ok = ''invoice.pdf''" by (simp add: env_ok_def)
  have q2: "asksaveasfilename env_other = ''copy.pdf''" by (simp add: env_other_def)
  from same_page_any_path [OF hf wr p1 p2 ne n1 n2]
  obtain ops where
    f1: "files_written (generate_invoice_pdf env_ok data_example) = [(asksaveasfilename env_ok, ops)]"
    and f2: "files_written (generate_invoice_pdf env_other data_example) = [(asksaveasfilename env_other, ops)]"
    by blast
  show ?thesis using ne n1 n2 f1 f2 q1 q2 by simp
qed



section \<open>The snapshot of the form\<close>

text \<open>
  C5, as stated, fails: for a form whose deliverables field holds an empty line, the
  line \<open>B\<close> and the final newline, and whose sender field starts with two blanks, the
  record does not hold the texts of the fields: it holds \<open>B\<close> and \<open>Acme Ltd\<close>. The field
  text splits into three lines, the text in the record into one.
\<close>

theorem snapshot_untouched_counterexample:
  "\<not> (records_built (on_generate_button_click env_ok app_example) =
        [\<lparr>invoice_title = invoice_title_var app_example,
          my_details = my_details_text app_example,
          client_details = client_details_text app_example,
          deliverables = deliverables_text app_example,
          inference = inference_text app_example,
          total_amount = total_amount_var app_example,
          header_font = header_font_var app_example,
          body_font = body_font_var app_example\<rparr>])
   \<and> deliverables_text app_example = [CHR 0x0A] @ ''B'' @ [CHR 0x0A]
   \<and> map deliverables (records_built (on_generate_button_click env_ok app_example)) = [''B'']
   \<and> map my_details (records_built (on_generate_button_click env_ok app_example)) = [''Acme Ltd'']
   \<and> my_details_text app_example = ''  Acme Ltd'' @ [CHR 0x0A]
   \<and> split_nl (deliverables_text app_example) = [[], ''B'', []]
   \<and> split_nl ''B'' = [''B'']"
  by (simp add: on_generate_button_click_def Let_def records_built_generate
        app_example_def py_strip_def py_isspace_def)

text \<open>
  C5, as the code has it. The handler builds a record from every state of the form,
  with no check. The title, the total and the two font names are the texts of their
  fields; each of the four multi-line fields is the text of its field with leading
  and trailing whitespace stripped. The rendered lines of the sender and client
  blocks and the two line lists of the table are these stripped texts split at
  newlines, and joining the pieces of a split with newlines gives the text back.
\<close>

theorem snapshot_strips_multiline:
  "\<exists>D. on_generate_button_click e self = Snapshot D # generate_invoice_pdf e D
      \<and> records_built (on_generate_button_click e self) = D # records_built (generate_invoice_pdf e D)
      \<and> records_built (generate_invoice_pdf e D) = []
      \<and> invoice_title D = invoice_title_var self
      \<and> total_amount D = total_amount_var self
      \<and> header_font D = header_font_var self
      \<and> body_font D = body_font_var self
      \<and> my_details D = py_strip (my_details_text self)
      \<and> client_details D = py_strip (client_details_text self)
      \<and> deliverables D = py_strip (deliverables_text self)
      \<and> inference D = py_strip (inference_text self)
      \<and> page_ops e D td ! 3 =
          DrawText inch (height - 150) (split_nl (py_strip (my_details_text self)))
      \<and> page_ops e D td ! 5 =
          DrawText (width - (35 / 10) * inch) (height - 150)
            (split_nl (py_strip (client_details_text self)))
      \<and> table_data e D =
          build_table_data (p_style (resolved_body_font e D))
            (split_nl (py_strip (deliverables_text self)))
            (split_nl (py_strip (inference_text self))) (total_amount_var self)
      \<and> join_nl (split_nl s) = s"
proof -
  let ?D = "\<lparr>invoice_title = invoice_title_var self,
             my_details = py_strip (my_details_text self),
             client_details = py_strip (client_details_text self),
             deliverables = py_strip (deliverables_text self),
             inference = py_strip (inference_text self),
             total_amount = total_amount_var self,
             header_font = header_font_var self,
             body_font = body_font_var self\<rparr>"
  have a: "on_generate_button_click e self = Snapshot ?D # generate_invoice_pdf e ?D"
    by (simp add: on_generate_button_click_def Let_def)
  have r: "records_built (generate_invoice_pdf e ?D) = []"
    by (rule records_built_generate)
  have p3: "page_ops e ?D td ! 3 =
          DrawText inch (height - 150) (split_nl (py_strip (my_details_text self)))"
    by (simp add: page_ops_def)
  have p5: "page_ops e ?D td ! 5 =
          DrawText (width - (35 / 10) * inch) (height - 150)
            (split_nl (py_strip (client_details_text self)))"
    by (simp add: page_ops_def)
  have t: "table_data e ?D =
          build_table_data (p_style (resolved_body_font e ?D))
            (split_nl (py_strip (deliverables_text self)))
            (split_nl (py_strip (inference_text self))) (total_amount_var self)"
    by (simp add: table_data_def)
  show ?thesis
    using a r p3 p5 t join_split_nl [of s] by (intro exI [of _ ?D]) simp
qed

end
